theory Spec2Isabelle
  imports Complex_Main
begin

section \<open>Data model\<close>

text \<open>
  A prediction is the dictionary \<open>{'time': datetime, 'height': float}\<close> of
  \<^verbatim>\<open>plot_manager.py\<close>. Instants are points of one time line, measured in
  seconds, and Python's floats are modelled by the reals: IEEE rounding and the
  rounding of \<open>timedelta\<close> to whole microseconds are not part of the model.
  An extreme is a prediction with the extra key \<open>'type'\<close>.
\<close>

type_synonym instant = real

record prediction =
  time :: instant
  height :: real

datatype tide_type = High | Low

record extreme = prediction +
  type :: tide_type

text \<open>
  The exceptions that the source can meet. A function that may raise returns a
  sum, with the exception on the left.
\<close>

datatype py_error = AttributeError | TypeError | ValueError | ZeroDivisionError | OverflowError

text \<open>Python's \<open>x / y\<close> on floats: it raises when the divisor is zero.\<close>

definition py_div :: "real \<Rightarrow> real \<Rightarrow> py_error + real" where
  "py_div x y = (if y = 0 then Inl ZeroDivisionError else Inr (x / y))"

section \<open>Extremum detection\<close>

text \<open>
  The body of the loop of \<open>_find_extremes\<close> at index \<open>i\<close>: the three-way choice
  of the neighbours, then the \<open>if\<close>/\<open>elif\<close> that appends at most one entry.
\<close>

definition extreme_at :: "prediction list \<Rightarrow> nat \<Rightarrow> extreme list" where
  "extreme_at predictions i =
     (let (prev_height, curr_height, next_height) =
            (if i = 0 then
               (height (predictions ! i), height (predictions ! i), height (predictions ! (i + 1)))
             else if i = length predictions - 1 then
               (height (predictions ! (i - 1)), height (predictions ! i), height (predictions ! i))
             else
               (height (predictions ! (i - 1)), height (predictions ! i), height (predictions ! (i + 1))))
      in if curr_height \<ge> prev_height \<and> curr_height \<ge> next_height then
           [\<lparr>time = time (predictions ! i), height = curr_height, type = High\<rparr>]
         else if curr_height \<le> prev_height \<and> curr_height \<le> next_height then
           [\<lparr>time = time (predictions ! i), height = curr_height, type = Low\<rparr>]
         else [])"

definition find_extremes :: "prediction list \<Rightarrow> extreme list" where
  "find_extremes predictions =
     (if length predictions < 3 then []
      else foldl (\<lambda>extremes i. extremes @ extreme_at predictions i) [] [0..<length predictions])"

section \<open>Instant interpolation\<close>

text \<open>
  \<open>_interpolate_current_height\<close>: the loop over \<open>range(len(predictions) - 1)\<close>
  returns from inside at the first index whose pair brackets the instant; the
  list is scanned in the order given, and is not sorted. The result is the
  \<open>Optional[float]\<close> returned, or the exception that the division raises.
\<close>

fun bracket_scan :: "prediction list \<Rightarrow> instant \<Rightarrow> nat list \<Rightarrow> py_error + real option" where
  "bracket_scan predictions current_time [] = Inr None"
| "bracket_scan predictions current_time (i # rest) =
     (if time (predictions ! i) \<le> current_time \<and> current_time \<le> time (predictions ! (i + 1)) then
        (let t1 = time (predictions ! i); h1 = height (predictions ! i);
             t2 = time (predictions ! (i + 1)); h2 = height (predictions ! (i + 1));
             total_seconds = t2 - t1;
             elapsed_seconds = current_time - t1
         in if total_seconds = 0 then Inr (Some h1)
            else
              (case py_div elapsed_seconds total_seconds of
                 Inl e \<Rightarrow> Inl e
               | Inr ratio \<Rightarrow>
                   (let interpolated_height = h1 + (h2 - h1) * ratio
                    in Inr (Some interpolated_height))))
      else bracket_scan predictions current_time rest)"

definition interpolate_current_height ::
  "prediction list \<Rightarrow> instant \<Rightarrow> py_error + real option" where
  "interpolate_current_height predictions current_time =
     (if length predictions < 2 then Inr None
      else bracket_scan predictions current_time [0..<length predictions - 1])"

section \<open>Curve synthesis\<close>

text \<open>
  \<open>_generate_smooth_curve\<close>. Python's \<open>sorted\<close> is stable, as \<open>sort_key\<close> is.
  The inner loop runs \<open>j\<close> over \<open>range(1, 6)\<close>; \<open>smooth_point\<close> is its body.
  The argument \<open>current_time\<close> is not used by the source either.
\<close>

definition smooth_point :: "prediction \<Rightarrow> prediction \<Rightarrow> nat \<Rightarrow> prediction" where
  "smooth_point p1 p2 j =
     (let time_diff = time p2 - time p1;
          height_diff = height p2 - height p1;
          ratio = real j / 6;
          cubic_ratio = 3 * ratio ^ 2 - 2 * ratio ^ 3;
          interp_time = time p1 + time_diff * ratio;
          interp_height = height p1 + height_diff * cubic_ratio
      in \<lparr>time = interp_time, height = interp_height\<rparr>)"

definition smooth_segment :: "prediction list \<Rightarrow> prediction list \<Rightarrow> nat \<Rightarrow> prediction list" where
  "smooth_segment sorted_predictions smooth_points i =
     (let p1 = sorted_predictions ! i;
          p2 = sorted_predictions ! (i + 1)
      in foldl (\<lambda>points j. points @ [smooth_point p1 p2 j]) (smooth_points @ [p1]) [1..<6])"

definition generate_smooth_curve :: "prediction list \<Rightarrow> instant \<Rightarrow> prediction list" where
  "generate_smooth_curve predictions current_time =
     (if length predictions < 2 then predictions
      else
        (let sorted_predictions = sort_key time predictions;
             smooth_points = foldl (smooth_segment sorted_predictions) []
                               [0..<length sorted_predictions - 1]
         in if sorted_predictions \<noteq> [] then smooth_points @ [last sorted_predictions]
            else smooth_points))"

text \<open>
  The six points that one pass of the outer loop appends for the interval
  starting at index \<open>i\<close>; used to state what the loop has built.
\<close>

definition segment_points :: "prediction list \<Rightarrow> nat \<Rightarrow> prediction list" where
  "segment_points sp i = sp ! i # map (smooth_point (sp ! i) (sp ! (i + 1))) [1..<6]"

section \<open>Extraction\<close>

text \<open>
  The payload is a Python dictionary of which two keys are read. Under
  \<open>"tide_points"\<close> the integration stores predictions it has already processed; they
  are typed here. Under \<open>"daily"\<close> lies the answer of the remote service as parsed
  from JSON, of no fixed shape: it is a \<open>pyval\<close>. A field of a record is \<open>None\<close>
  when the key is absent. A dictionary is an association list, read with
  \<open>map_of\<close>.
\<close>

datatype pyval =
    PNone
  | PBool bool
  | PInt int
  | PFloat real
  | PStr string
  | PList "pyval list"
  | PDict "(string \<times> pyval) list"

record tide_data =
  tide_points :: "prediction list option"
  daily :: "pyval option"

datatype svg_part =
    SvgOpen real real
  | Background real real string
  | GridLine real real real real string
  | AreaPath "(real \<times> real) list" string string
  | CurvePath "(real \<times> real) list" string
  | Marker real real string
  | CurrentLabel real real string real instant
  | ExtremeLabelDark real real string string real instant
  | ExtremeLabelLight real real string real instant
  | TimeTick real real string instant
  | HeightTick real real string real
  | TimeAxisTitle real real string
  | HeightAxisTitle real string real
  | Title real string string
  | SvgClose

datatype svg = ErrorSvg string string | PlotSvg "svg_part list"

text \<open>
  What the source gets from outside is a parameter of the model.
  \<open>strptime\<close> is \<open>datetime.strptime(s, "%Y-%m-%d %H:%M:%S")\<close> and \<open>float_of_str\<close>
  is \<open>float(s)\<close> on a string, both \<open>None\<close> where Python raises \<open>ValueError\<close>;
  \<open>str_of\<close> is the text that an f-string gives for a value that is not a string,
  or the exception that its conversion raises (\<open>ValueError\<close> for an integer of
  more digits than the interpreter converts);
  \<open>svg_text\<close> is the text of a document, that is the f-strings of the
  renderer with their formatting of numbers and times;
  \<open>now\<close> is \<open>dt_util.now()\<close>; and \<open>can_write path\<close> tells whether opening
  \<open>path\<close> for writing and writing to it succeed.
\<close>

record environment =
  strptime :: "string \<Rightarrow> instant option"
  float_of_str :: "string \<Rightarrow> real option"
  str_of :: "pyval \<Rightarrow> py_error + string"
  svg_text :: "svg \<Rightarrow> string"
  now :: instant
  can_write :: "string \<Rightarrow> bool"

fun truthy :: "pyval \<Rightarrow> bool" where
  "truthy PNone = False"
| "truthy (PBool b) = b"
| "truthy (PInt n) = (n \<noteq> 0)"
| "truthy (PFloat x) = (x \<noteq> 0)"
| "truthy (PStr s) = (s \<noteq> [])"
| "truthy (PList xs) = (xs \<noteq> [])"
| "truthy (PDict kvs) = (kvs \<noteq> [])"

text \<open>\<open>d.get(k)\<close>, with the default \<open>None\<close>.\<close>

definition dict_get :: "(string \<times> pyval) list \<Rightarrow> string \<Rightarrow> pyval" where
  "dict_get kvs k = (case map_of kvs k of None \<Rightarrow> PNone | Some v \<Rightarrow> v)"

text \<open>A value inside an f-string: a string stands for itself.\<close>

definition py_format :: "environment \<Rightarrow> pyval \<Rightarrow> py_error + string" where
  "py_format env v = (case v of PStr s \<Rightarrow> Inr s | _ \<Rightarrow> str_of env v)"

text \<open>
  \<open>float(v)\<close>. A \<open>bool\<close> is an \<open>int\<close> in Python. An integer converts when it
  rounds to a finite double, that is when its absolute value lies below
  \<open>2 ^ 1024 - 2 ^ 970\<close>, half way between the largest double and \<open>2 ^ 1024\<close>;
  otherwise \<open>float\<close> raises \<open>OverflowError\<close>, "int too large to convert to float".
\<close>

definition in_float_range :: "int \<Rightarrow> bool" where
  "in_float_range n \<longleftrightarrow> \<bar>n\<bar> < 2 ^ 1024 - 2 ^ 970"

fun py_float :: "environment \<Rightarrow> pyval \<Rightarrow> py_error + real" where
  "py_float env PNone = Inl TypeError"
| "py_float env (PBool b) = Inr (if b then 1 else 0)"
| "py_float env (PInt n) = (if in_float_range n then Inr (real_of_int n) else Inl OverflowError)"
| "py_float env (PFloat x) = Inr x"
| "py_float env (PStr s) = (case float_of_str env s of None \<Rightarrow> Inl ValueError | Some x \<Rightarrow> Inr x)"
| "py_float env (PList xs) = Inl TypeError"
| "py_float env (PDict kvs) = Inl TypeError"

text \<open>
  \<open>len(prediccion)\<close> followed by \<open>for entry in prediccion\<close>: a list gives its
  elements, a string its characters and a dictionary its keys, all of them strings;
  the other values have no length and \<open>len\<close> raises \<open>TypeError\<close>.
\<close>

fun py_iter :: "pyval \<Rightarrow> py_error + pyval list" where
  "py_iter (PList xs) = Inr xs"
| "py_iter (PStr s) = Inr (map (\<lambda>c. PStr [c]) s)"
| "py_iter (PDict kvs) = Inr (map (\<lambda>kv. PStr (fst kv)) kvs)"
| "py_iter PNone = Inl TypeError"
| "py_iter (PBool b) = Inl TypeError"
| "py_iter (PInt n) = Inl TypeError"
| "py_iter (PFloat x) = Inl TypeError"

text \<open>
  The body of the \<open>try\<close> for one entry. \<open>Inr None\<close>: nothing was appended, because
  the date or the time is missing or empty. \<open>Inl\<close>: the exception raised;
  \<open>entry.get\<close> exists on dictionaries only.
\<close>

definition parse_entry :: "environment \<Rightarrow> pyval \<Rightarrow> py_error + prediction option" where
  "parse_entry env entry =
     (case entry of
        PDict kvs \<Rightarrow>
          (let fecha_str = dict_get kvs ''fecha'';
               hora_str = dict_get kvs ''hora''
           in if truthy fecha_str \<and> truthy hora_str then
                (case py_format env fecha_str of
                   Inl e \<Rightarrow> Inl e
                 | Inr fecha_text \<Rightarrow>
                     (case py_format env hora_str of
                        Inl e \<Rightarrow> Inl e
                      | Inr hora_text \<Rightarrow>
                          (let datetime_str = fecha_text @ '' '' @ hora_text
                           in case strptime env datetime_str of
                                None \<Rightarrow> Inl ValueError
                              | Some dt \<Rightarrow>
                                  (case py_float env
                                          (case map_of kvs ''altura'' of None \<Rightarrow> PInt 0 | Some v \<Rightarrow> v) of
                                     Inl e \<Rightarrow> Inl e
                                   | Inr h \<Rightarrow> Inr (Some \<lparr>time = dt, height = h\<rparr>)))))
              else Inr None)
      | _ \<Rightarrow> Inl AttributeError)"

text \<open>
  The loop over the entries, with \<open>except (ValueError, TypeError): continue\<close>; any
  other exception leaves the loop and the function.
\<close>

fun parse_entries :: "environment \<Rightarrow> pyval list \<Rightarrow> prediction list \<Rightarrow> py_error + prediction list" where
  "parse_entries env [] predictions = Inr predictions"
| "parse_entries env (entry # rest) predictions =
     (case parse_entry env entry of
        Inr (Some p) \<Rightarrow> parse_entries env rest (predictions @ [p])
      | Inr None \<Rightarrow> parse_entries env rest predictions
      | Inl e \<Rightarrow>
          if e = ValueError \<or> e = TypeError then parse_entries env rest predictions
          else Inl e)"

text \<open>
  The fallback branch of \<open>_extract_predictions\<close>. The arguments of the debug
  messages are evaluated whatever the log level: \<open>tide_data["daily"].keys()\<close> and
  \<open>tide_data["daily"]["mareas"].keys()\<close> raise \<open>AttributeError\<close> on a value that is
  not a dictionary.
\<close>

definition extract_raw :: "environment \<Rightarrow> tide_data \<Rightarrow> py_error + prediction list" where
  "extract_raw env tide_data =
     (case daily tide_data of
        None \<Rightarrow> Inr []
      | Some (PDict daily_kvs) \<Rightarrow>
          (case map_of daily_kvs ''mareas'' of
             None \<Rightarrow> Inr []
           | Some (PDict mareas_data) \<Rightarrow>
               (case map_of mareas_data ''prediccion'' of
                  None \<Rightarrow> Inr []
                | Some prediccion \<Rightarrow>
                    (case py_iter prediccion of
                       Inl e \<Rightarrow> Inl e
                     | Inr entries \<Rightarrow> parse_entries env entries []))
           | Some _ \<Rightarrow> Inl AttributeError)
      | Some _ \<Rightarrow> Inl AttributeError)"

definition extract_predictions :: "environment \<Rightarrow> tide_data \<Rightarrow> py_error + prediction list" where
  "extract_predictions env tide_data =
     (case tide_points tide_data of
        Some points \<Rightarrow> if points \<noteq> [] then Inr points else extract_raw env tide_data
      | None \<Rightarrow> extract_raw env tide_data)"

text \<open>
  What one entry contributes to the result when the loop goes on: its prediction,
  or nothing.
\<close>

definition entry_result :: "environment \<Rightarrow> pyval \<Rightarrow> prediction option" where
  "entry_result env entry = (case parse_entry env entry of Inr r \<Rightarrow> r | Inl e \<Rightarrow> None)"

text \<open>
  The entries of the documented raw shape: a mapping whose date and time are
  strings, or are missing or empty, and whose height, when it is an integer, is
  within the range of a float. On such an entry the body of the \<open>try\<close> converts
  no value other than a string to text, and \<open>float\<close> cannot overflow.
\<close>

definition date_field :: "pyval \<Rightarrow> bool" where
  "date_field v = (case v of PStr s \<Rightarrow> True | _ \<Rightarrow> \<not> truthy v)"

fun raw_entry :: "pyval \<Rightarrow> bool" where
  "raw_entry (PDict kvs) =
     (date_field (dict_get kvs ''fecha'') \<and> date_field (dict_get kvs ''hora'')
      \<and> (case map_of kvs ''altura'' of Some (PInt n) \<Rightarrow> in_float_range n | _ \<Rightarrow> True))"
| "raw_entry v = False"

text \<open>The raw shape \<open>{"daily": {"mareas": {"prediccion": entries}}}\<close>.\<close>

definition raw_payload :: "pyval list \<Rightarrow> tide_data" where
  "raw_payload entries =
     \<lparr>tide_points = None,
      daily = Some (PDict [(''mareas'', PDict [(''prediccion'', PList entries)])])\<rparr>"

text \<open>
  A stand-in for the outside, to run the model on concrete payloads: it knows the
  two date-times and the three numbers of the examples below, gives a document a
  text that tells the error document from a plot, and lets every file be written.
\<close>

definition example_env :: environment where
  "example_env =
     \<lparr>strptime = map_of [(''2024-05-01 08:00:00'', 28800), (''2024-05-01 14:00:00'', 50400)],
      float_of_str = map_of [(''0.5'', 1 / 2), (''3.2'', 16 / 5), (''0.7'', 7 / 10)],
      str_of = (\<lambda>v. Inr ''?''),
      svg_text = (\<lambda>doc. case doc of ErrorSvg bg fg \<Rightarrow> ''<svg>Could not load tide data</svg>''
                              | PlotSvg parts \<Rightarrow> ''<svg>plot</svg>''),
      now = 0,
      can_write = (\<lambda>path. True)\<rparr>"

section \<open>Rendering\<close>

text \<open>
  The configuration held by a \<open>TidePlotManager\<close>, and the \<open>colors\<close> dictionary of
  \<open>_generate_svg_plot\<close>.
\<close>

record config =
  name :: string
  filename :: string
  transparent_background :: bool
  dark_mode :: bool

record colors =
  background_color :: string
  grid_color :: string
  tide_line_color :: string
  tide_fill_color :: string
  tide_fill_opacity :: string
  current_marker_color :: string
  current_text_color :: string
  high_tide_color :: string
  low_tide_color :: string
  text_color :: string
  title_color :: string
  axis_text_color :: string

definition theme :: "config \<Rightarrow> colors" where
  "theme cfg =
     (if dark_mode cfg then
        \<lparr>background_color = (if \<not> transparent_background cfg then ''#1e1e1e'' else ''none''),
         grid_color = ''#404040'',
         tide_line_color = ''#4CAF50'',
         tide_fill_color = ''#4CAF50'',
         tide_fill_opacity = ''0.2'',
         current_marker_color = ''#FFF'',
         current_text_color = ''#FFF'',
         high_tide_color = ''#FF5722'',
         low_tide_color = ''#2196F3'',
         text_color = ''#FFF'',
         title_color = ''#FFF'',
         axis_text_color = ''#CCC''\<rparr>
      else
        \<lparr>background_color = (if \<not> transparent_background cfg then ''white'' else ''none''),
         grid_color = ''lightgray'',
         tide_line_color = ''cornflowerblue'',
         tide_fill_color = ''lightblue'',
         tide_fill_opacity = ''0.3'',
         current_marker_color = ''black'',
         current_text_color = ''black'',
         high_tide_color = ''red'',
         low_tide_color = ''blue'',
         text_color = ''black'',
         title_color = ''black'',
         axis_text_color = ''black''\<rparr>)"

text \<open>The canvas: \<open>width, height = 800, 400\<close> and \<open>margin = 60\<close>.\<close>

definition canvas_width :: real where "canvas_width = 800"
definition canvas_height :: real where "canvas_height = 400"
definition margin :: real where "margin = 60"
definition plot_width :: real where "plot_width = canvas_width - 2 * margin"
definition plot_height :: real where "plot_height = canvas_height - 2 * margin"

text \<open>
  \<open>min\<close> and \<open>max\<close> of a list. Python raises \<open>ValueError\<close> on an empty list; the
  renderer calls them after it has found the curve not empty, and no equation is
  given for the empty list.
\<close>

fun list_min :: "real list \<Rightarrow> real" where
  "list_min [x] = x"
| "list_min (x # y # ys) = min x (list_min (y # ys))"

fun list_max :: "real list \<Rightarrow> real" where
  "list_max [x] = x"
| "list_max (x # y # ys) = max x (list_max (y # ys))"

text \<open>
  The height range with its padding: \<open>height_range = max_height - min_height\<close>,
  then \<open>min_height -= height_range * 0.1\<close> and \<open>max_height += height_range * 0.1\<close>.
  The result is the pair of the padded minimum and maximum.
\<close>

definition padded_heights :: "real list \<Rightarrow> real \<times> real" where
  "padded_heights heights =
     (let min_height = list_min heights;
          max_height = list_max heights;
          height_range = max_height - min_height
      in (min_height - height_range * (1 / 10), max_height + height_range * (1 / 10)))"

text \<open>
  The two closures of \<open>_generate_svg_plot\<close>, with the bounds they capture as
  arguments. Python raises \<open>ZeroDivisionError\<close> when the divisor is zero; the
  renderer below applies them only after it has checked the divisors.
\<close>

definition time_to_x :: "instant \<Rightarrow> instant \<Rightarrow> instant \<Rightarrow> real" where
  "time_to_x min_time max_time time_val =
     (let time_ratio = (time_val - min_time) / (max_time - min_time)
      in margin + time_ratio * plot_width)"

definition height_to_y :: "real \<Rightarrow> real \<Rightarrow> real \<Rightarrow> real" where
  "height_to_y min_height max_height height_val =
     (let height_ratio = (height_val - min_height) / (max_height - min_height)
      in canvas_height - margin - height_ratio * plot_height)"

definition generate_grid :: "string \<Rightarrow> svg_part list" where
  "generate_grid grid =
     map (\<lambda>i. let x = margin + (real i * plot_width / 4)
               in GridLine x margin x (canvas_height - margin) grid) [0..<5]
     @ map (\<lambda>i. let y = margin + (real i * plot_height / 4)
                 in GridLine margin y (canvas_width - margin) y grid) [0..<5]"

definition generate_axes_labels ::
  "instant \<Rightarrow> instant \<Rightarrow> real \<Rightarrow> real \<Rightarrow> string \<Rightarrow> svg_part list" where
  "generate_axes_labels min_time max_time min_height max_height color =
     map (\<lambda>i. let x = margin + (real i * plot_width / 4);
                   time_ratio = real i / 4;
                   label_time = min_time + (max_time - min_time) * time_ratio
               in TimeTick x (canvas_height - margin + 15) color label_time) [0..<5]
     @ map (\<lambda>i. let y = canvas_height - margin - (real i * plot_height / 4);
                     height_ratio = real i / 4;
                     label_height = min_height + (max_height - min_height) * height_ratio
                 in HeightTick (margin - 10) (y + 3) color label_height) [0..<5]
     @ [TimeAxisTitle (canvas_width / 2) (canvas_height - 10) color,
        HeightAxisTitle (canvas_height / 2) color (canvas_height / 2)]"

definition generate_error_svg :: "config \<Rightarrow> svg" where
  "generate_error_svg cfg =
     (let bg_color = (if dark_mode cfg \<and> \<not> transparent_background cfg then ''#1e1e1e''
                      else (if transparent_background cfg then ''none'' else ''white''));
          text_color = (if dark_mode cfg then ''#FF5722'' else ''red'')
      in ErrorSvg bg_color text_color)"

text \<open>The marker and the label of one extreme.\<close>

definition extreme_parts ::
  "config \<Rightarrow> colors \<Rightarrow> (instant \<Rightarrow> real) \<Rightarrow> (real \<Rightarrow> real) \<Rightarrow> extreme \<Rightarrow> svg_part list" where
  "extreme_parts cfg cols to_x to_y ex =
     (let ext_x = to_x (time ex);
          ext_y = to_y (height ex);
          color = (if type ex = High then high_tide_color cols else low_tide_color cols);
          label_y = (if type ex = High then ext_y - 20 else ext_y + 25)
      in [Marker ext_x ext_y color,
          (if dark_mode cfg then
             ExtremeLabelDark ext_x label_y (text_color cols) color (height ex) (time ex)
           else ExtremeLabelLight ext_x label_y color (height ex) (time ex))])"

text \<open>
  \<open>_generate_svg_plot\<close>. An empty curve gives the error document. Otherwise the
  loop over the curve points calls \<open>time_to_x\<close> and then \<open>height_to_y\<close> on the first
  point before any part that depends on them is built, and their divisors do not
  change during the call: the function raises \<open>ZeroDivisionError\<close> exactly when one
  of the two divisors is zero.
\<close>

definition generate_svg_plot ::
  "config \<Rightarrow> prediction list \<Rightarrow> extreme list \<Rightarrow> instant \<Rightarrow> real option \<Rightarrow> prediction list
     \<Rightarrow> py_error + svg" where
  "generate_svg_plot cfg curve_points extremes current_time current_height original_predictions =
     (if curve_points = [] then Inr (generate_error_svg cfg)
      else
        (let times = map time curve_points;
             heights = map height curve_points;
             min_time = list_min times;
             max_time = list_max times;
             (min_height, max_height) = padded_heights heights;
             cols = theme cfg;
             to_x = time_to_x min_time max_time;
             to_y = height_to_y min_height max_height
         in if max_time - min_time = 0 then Inl ZeroDivisionError
            else if max_height - min_height = 0 then Inl ZeroDivisionError
            else
              (let path_points = map (\<lambda>point. (to_x (time point), to_y (height point))) curve_points;
                   bottom_y = to_y min_height;
                   area_points = path_points @ [(to_x max_time, bottom_y), (to_x min_time, bottom_y)]
               in Inr (PlotSvg
                    ([SvgOpen canvas_width canvas_height,
                      Background canvas_width canvas_height (background_color cols)]
                     @ generate_grid (grid_color cols)
                     @ [AreaPath area_points (tide_fill_color cols) (tide_fill_opacity cols),
                        CurvePath path_points (tide_line_color cols)]
                     @ (case current_height of
                          None \<Rightarrow> []
                        | Some h \<Rightarrow>
                            (let curr_x = to_x current_time;
                                 curr_y = to_y h
                             in [Marker curr_x curr_y (current_marker_color cols),
                                 CurrentLabel curr_x (curr_y - 15) (current_text_color cols) h current_time]))
                     @ concat (map (extreme_parts cfg cols to_x to_y) extremes)
                     @ generate_axes_labels min_time max_time min_height max_height (axis_text_color cols)
                     @ [Title (canvas_width / 2) (title_color cols) (name cfg), SvgClose])))))"

section \<open>Writing the document\<close>

text \<open>
  Strings are lists of bytes: the text of a file is what \<open>encoding='utf-8'\<close>
  writes. \<open>replace\<close> is Python's \<open>str.replace\<close>: every occurrence of \<open>old\<close>,
  from the left and without overlap; with an empty \<open>old\<close>, \<open>new\<close> is put before
  every character and at the end.
\<close>

fun replace :: "string \<Rightarrow> string \<Rightarrow> string \<Rightarrow> string" where
  "replace [] old new = (if old = [] then new else [])"
| "replace (c # cs) old new =
     (if old = [] then new @ concat (map (\<lambda>ch. ch # new) (c # cs))
      else if take (length old) (c # cs) = old then
        new @ replace (drop (length old) (c # cs)) old new
      else c # replace cs old new)"

text \<open>\<open>base64.b64encode\<close>: three bytes give four characters of the alphabet.\<close>

definition b64_alphabet :: string where
  "b64_alphabet = ''ABCDEFGHIJKLMNOPQRSTUVWXYZabcdefghijklmnopqrstuvwxyz0123456789+/''"

definition b64_char :: "nat \<Rightarrow> char" where
  "b64_char n = b64_alphabet ! (n mod 64)"

fun b64encode :: "string \<Rightarrow> string" where
  "b64encode [] = []"
| "b64encode [a] =
     (let n = of_char a * 16
      in [b64_char (n div 64), b64_char n, CHR ''='', CHR ''=''])"
| "b64encode [a, b] =
     (let n = (of_char a * 256 + of_char b) * 4
      in [b64_char (n div 4096), b64_char (n div 64), b64_char n, CHR ''=''])"
| "b64encode (a # b # c # rest) =
     (let n = of_char a * 65536 + of_char b * 256 + of_char c
      in [b64_char (n div 262144), b64_char (n div 4096), b64_char (n div 64), b64_char n]
         @ b64encode rest)"

text \<open>
  The wrapper document that \<open>_save_svg_as_png\<close> builds in \<open>html_content\<close>
  around the encoded markup.
\<close>

definition html_content :: "string \<Rightarrow> string" where
  "html_content svg_base64 =
     [CHR 0x0A] @ replicate 12 (CHR '' '') @ ''<html>''
     @ [CHR 0x0A] @ replicate 12 (CHR '' '')
     @ ''<body style='' @ [CHR 0x22] @ ''margin:0;padding:0;'' @ [CHR 0x22] @ ''>''
     @ [CHR 0x0A] @ replicate 16 (CHR '' '')
     @ ''<img src='' @ [CHR 0x22] @ ''data:image/svg+xml;base64,'' @ svg_base64 @ [CHR 0x22]
     @ '' style='' @ [CHR 0x22] @ ''width:800px;height:400px;'' @ [CHR 0x22] @ ''/>''
     @ [CHR 0x0A] @ replicate 12 (CHR '' '') @ ''</body>''
     @ [CHR 0x0A] @ replicate 12 (CHR '' '') @ ''</html>''
     @ [CHR 0x0A] @ replicate 12 (CHR '' '')"

text \<open>
  The file system maps a path to the text of its file. \<open>_save_svg_as_png\<close> writes
  the markup to the path with \<open>.png\<close> replaced by \<open>.svg\<close>, builds the wrapper
  document in a local variable, and writes the markup to the configured path. An
  exception from a write is caught and gives \<open>False\<close>; what was written before it
  stays.
\<close>

type_synonym fs = "string \<rightharpoonup> string"

definition save_svg_as_png :: "environment \<Rightarrow> config \<Rightarrow> string \<Rightarrow> fs \<Rightarrow> bool \<times> fs" where
  "save_svg_as_png env cfg svg_content files =
     (let svg_path = replace (filename cfg) ''.png'' ''.svg''
      in if \<not> can_write env svg_path then (False, files)
         else
           (let files1 = files(svg_path \<mapsto> svg_content);
                svg_base64 = b64encode svg_content;
                html = html_content svg_base64
            in if \<not> can_write env (filename cfg) then (False, files1)
               else (True, files1(filename cfg \<mapsto> svg_content))))"

section \<open>The public operation\<close>

text \<open>
  \<open>not tide_data\<close>: the dictionary is empty. Keys other than the two of the
  record are never read, and a payload that has only such keys ends like the empty
  one, with \<open>False\<close> and nothing written.
\<close>

definition tide_data_empty :: "tide_data \<Rightarrow> bool" where
  "tide_data_empty tide_data \<longleftrightarrow> tide_points tide_data = None \<and> daily tide_data = None"

text \<open>The body of the \<open>try\<close> of \<open>generate_tide_plot\<close>.\<close>

definition generate_body ::
  "environment \<Rightarrow> config \<Rightarrow> tide_data \<Rightarrow> instant \<Rightarrow> fs \<Rightarrow> py_error + bool \<times> fs" where
  "generate_body env cfg tide_data current_time files =
     (case extract_predictions env tide_data of
        Inl e \<Rightarrow> Inl e
      | Inr predictions \<Rightarrow>
          if predictions = [] then Inr (False, files)
          else
            (let curve_points = generate_smooth_curve predictions current_time;
                 extremes = find_extremes predictions
             in case interpolate_current_height predictions current_time of
                  Inl e \<Rightarrow> Inl e
                | Inr current_height \<Rightarrow>
                    (case generate_svg_plot cfg curve_points extremes current_time current_height
                            predictions of
                       Inl e \<Rightarrow> Inl e
                     | Inr svg_content \<Rightarrow>
                         Inr (save_svg_as_png env cfg (svg_text env svg_content) files))))"

text \<open>
  \<open>generate_tide_plot\<close>, with \<open>except Exception: return False\<close>. The result is the
  flag returned and the file system left behind.
\<close>

definition generate_tide_plot ::
  "environment \<Rightarrow> config \<Rightarrow> tide_data \<Rightarrow> instant option \<Rightarrow> fs \<Rightarrow> bool \<times> fs" where
  "generate_tide_plot env cfg tide_data current_time files =
     (if tide_data_empty tide_data then (False, files)
      else
        (let current_time = (case current_time of None \<Rightarrow> now env | Some t \<Rightarrow> t)
         in case generate_body env cfg tide_data current_time files of
              Inl e \<Rightarrow> (False, files)
            | Inr result \<Rightarrow> result))"

text \<open>A configuration for the examples.\<close>

definition example_config :: config where
  "example_config =
     \<lparr>name = ''Port'', filename = ''tide.png'', transparent_background = False, dark_mode = False\<rparr>"

section \<open>Properties of the loops\<close>

lemma foldl_append_concat:
  "foldl (\<lambda>acc i. acc @ f i) a xs = a @ concat (map f xs)"
  by (induction xs arbitrary: a) simp_all

lemma foldl_snoc_map:
  "foldl (\<lambda>points j. points @ [f j]) a xs = a @ map f xs"
  by (induction xs arbitrary: a) simp_all

lemma upt_split_at: "i < n \<Longrightarrow> [0..<n] = [0..<i] @ i # [Suc i..<n]"
proof -
  assume less: "i < n"
  then have "[0..<n] = [0..<i] @ [i..<n]"
    using upt_add_eq_append [of 0 i "n - i"] by simp
  also from less have "[i..<n] = i # [Suc i..<n]"
    by (rule upt_conv_Cons)
  finally show ?thesis .
qed

section \<open>Extremum detection: flat runs and boundary points\<close>

lemma find_extremes_concat:
  "3 \<le> length ps \<Longrightarrow> find_extremes ps = concat (map (extreme_at ps) [0..<length ps])"
  by (simp add: find_extremes_def foldl_append_concat)

lemma extreme_at_flat:
  assumes "3 \<le> length ps" and "i < length ps"
    and "0 < i \<longrightarrow> height (ps ! (i - 1)) = height (ps ! i)"
    and "i + 1 < length ps \<longrightarrow> height (ps ! (i + 1)) = height (ps ! i)"
  shows "extreme_at ps i = [\<lparr>time = time (ps ! i), height = height (ps ! i), type = High\<rparr>]"
proof -
  consider "i = 0" | "0 < i" "i = length ps - 1" | "0 < i" "i \<noteq> length ps - 1"
    by blast
  then show ?thesis
  proof cases
    case 1
    with assms show ?thesis by (simp add: extreme_at_def)
  next
    case 2
    with assms show ?thesis by (simp add: extreme_at_def)
  next
    case 3
    with assms have "i + 1 < length ps" by linarith
    with 3 assms show ?thesis by (simp add: extreme_at_def)
  qed
qed

text \<open>
  C1 (as the code has it). The \<open>if\<close>/\<open>elif\<close> of \<open>_find_extremes\<close> appends at most
  one entry per index, and the High test comes first. So for every sequence of at
  least 3 predictions, a point whose height equals both of its neighbours (at a
  boundary the missing neighbour is the point itself) contributes exactly one entry
  to the output, tagged High, between the entries of the earlier and of the later
  indices; it is not emitted a second time as Low.
\<close>

theorem flat_point_tagged_high_once:
  assumes "3 \<le> length ps" and "i < length ps"
    and "0 < i \<longrightarrow> height (ps ! (i - 1)) = height (ps ! i)"
    and "i + 1 < length ps \<longrightarrow> height (ps ! (i + 1)) = height (ps ! i)"
  shows "find_extremes ps =
           concat (map (extreme_at ps) [0..<i])
           @ [\<lparr>time = time (ps ! i), height = height (ps ! i), type = High\<rparr>]
           @ concat (map (extreme_at ps) [Suc i..<length ps])"
proof -
  have "find_extremes ps = concat (map (extreme_at ps) ([0..<i] @ i # [Suc i..<length ps]))"
    using assms(1,2) find_extremes_concat upt_split_at by metis
  then show ?thesis
    using extreme_at_flat [OF assms] by simp
qed

theorem flat_point_tagged_high_once_witness:
  "3 \<le> length [\<lparr>time = 0, height = 2\<rparr>, \<lparr>time = 1, height = 1\<rparr>,
                 \<lparr>time = 2, height = 1\<rparr>, \<lparr>time = 3, height = 1\<rparr>]
   \<and> find_extremes [\<lparr>time = 0, height = 2\<rparr>, \<lparr>time = 1, height = 1\<rparr>,
                    \<lparr>time = 2, height = 1\<rparr>, \<lparr>time = 3, height = 1\<rparr>]
     = [\<lparr>time = 0, height = 2, type = High\<rparr>, \<lparr>time = 1, height = 1, type = Low\<rparr>,
        \<lparr>time = 2, height = 1, type = High\<rparr>, \<lparr>time = 3, height = 1, type = High\<rparr>]"
  using flat_point_tagged_high_once
    [of "[\<lparr>time = 0, height = 2\<rparr>, \<lparr>time = 1, height = 1\<rparr>,
          \<lparr>time = 2, height = 1\<rparr>, \<lparr>time = 3, height = 1\<rparr>]" 2]
  by (simp add: extreme_at_def upt_conv_Cons)

text \<open>
  On the flat run of heights 1, 1, 1 every point is emitted once, as High; the
  interior point, equal to both neighbours, gets no Low entry.
\<close>

theorem flat_run_counterexample:
  "find_extremes [\<lparr>time = 0, height = 1\<rparr>, \<lparr>time = 1, height = 1\<rparr>, \<lparr>time = 2, height = 1\<rparr>]
     = [\<lparr>time = 0, height = 1, type = High\<rparr>, \<lparr>time = 1, height = 1, type = High\<rparr>,
        \<lparr>time = 2, height = 1, type = High\<rparr>]
   \<and> \<lparr>time = 1, height = 1, type = Low\<rparr> \<notin> set (find_extremes
        [\<lparr>time = 0, height = 1\<rparr>, \<lparr>time = 1, height = 1\<rparr>, \<lparr>time = 2, height = 1\<rparr>])"
  by (simp add: find_extremes_def extreme_at_def upt_conv_Cons)

text \<open>
  C2 (as the code has it). For the heights 1, 3, 5, 3, 1, at any times, extremum
  detection tags three points: the first point as Low (it ties with itself and lies
  below its successor), the interior peak of height 5 as High, and the last point as
  Low; the two other interior points get no tag.
\<close>

theorem peak_sequence_extremes:
  "find_extremes [\<lparr>time = t0, height = 1\<rparr>, \<lparr>time = t1, height = 3\<rparr>, \<lparr>time = t2, height = 5\<rparr>,
                  \<lparr>time = t3, height = 3\<rparr>, \<lparr>time = t4, height = 1\<rparr>]
     = [\<lparr>time = t0, height = 1, type = Low\<rparr>, \<lparr>time = t2, height = 5, type = High\<rparr>,
        \<lparr>time = t4, height = 1, type = Low\<rparr>]"
  by (simp add: find_extremes_def extreme_at_def upt_conv_Cons)

text \<open>
  The output for 1, 3, 5, 3, 1 is not the single High entry: the first boundary
  point is in it, tagged Low.
\<close>

theorem peak_sequence_counterexample:
  "find_extremes [\<lparr>time = 0, height = 1\<rparr>, \<lparr>time = 1, height = 3\<rparr>, \<lparr>time = 2, height = 5\<rparr>,
                  \<lparr>time = 3, height = 3\<rparr>, \<lparr>time = 4, height = 1\<rparr>]
     \<noteq> [\<lparr>time = 2, height = 5, type = High\<rparr>]
   \<and> \<lparr>time = 0, height = 1, type = Low\<rparr> \<in> set (find_extremes
        [\<lparr>time = 0, height = 1\<rparr>, \<lparr>time = 1, height = 3\<rparr>, \<lparr>time = 2, height = 5\<rparr>,
         \<lparr>time = 3, height = 3\<rparr>, \<lparr>time = 4, height = 1\<rparr>])"
  by (simp add: find_extremes_def extreme_at_def upt_conv_Cons)

section \<open>Instant interpolation: brackets\<close>



lemma bracket_scan_returns: "\<exists>r. bracket_scan ps q xs = Inr r"
  by (induction xs) (auto simp: Let_def py_div_def)

lemma interpolate_returns: "\<exists>r. interpolate_current_height ps q = Inr r"
  by (simp add: interpolate_current_height_def bracket_scan_returns)







section \<open>Curve synthesis: length and points\<close>

lemma smooth_segment_append:
  "smooth_segment sp acc i = acc @ segment_points sp i"
  by (simp add: smooth_segment_def segment_points_def Let_def foldl_snoc_map)

lemma smooth_fold_concat:
  "foldl (smooth_segment sp) [] xs = concat (map (segment_points sp) xs)"
proof -
  have "smooth_segment sp = (\<lambda>acc i. acc @ segment_points sp i)"
    by (intro ext) (rule smooth_segment_append)
  then show ?thesis
    by (simp add: foldl_append_concat)
qed

lemma length_segment_points: "length (segment_points sp i) = 6"
  by (simp add: segment_points_def)

lemma length_blocks:
  "length (concat (map (segment_points sp) [0..<n])) = 6 * n"
  by (induction n) (simp_all add: length_segment_points)

lemma nth_blocks:
  "i < n \<Longrightarrow> j < 6 \<Longrightarrow>
     concat (map (segment_points sp) [0..<n]) ! (6 * i + j) = segment_points sp i ! j"
proof (induction n)
  case 0
  then show ?case by simp
next
  case (Suc n)
  show ?case
  proof (cases "i < n")
    case True
    with Suc.prems have "6 * i + j < 6 * n" by simp
    with True Suc show ?thesis
      by (simp add: nth_append length_blocks)
  next
    case False
    with Suc.prems have "i = n" by simp
    then show ?thesis
      by (simp add: nth_append length_blocks)
  qed
qed

lemma segment_points_nth:
  "j < 6 \<Longrightarrow> segment_points sp i ! j = (if j = 0 then sp ! i else smooth_point (sp ! i) (sp ! (i + 1)) j)"
  by (cases j) (simp_all add: segment_points_def)

lemma smooth_point_0: "smooth_point p1 p2 0 = (p1::prediction)"
  by (simp add: smooth_point_def)

lemma smooth_point_6: "smooth_point p1 p2 6 = (p2::prediction)"
  by (simp add: smooth_point_def)

lemma smooth_curve_unfold:
  assumes "2 \<le> length ps"
  shows "generate_smooth_curve ps ct =
           concat (map (segment_points (sort_key time ps)) [0..<length ps - 1])
           @ [sort_key time ps ! (length ps - 1)]"
proof -
  from assms have "sort_key time ps \<noteq> []"
    by (metis length_sort list.size(3) not_numeral_le_zero)
  with assms show ?thesis
    by (simp add: generate_smooth_curve_def Let_def smooth_fold_concat last_conv_nth)
qed

lemma smooth_curve_length:
  "2 \<le> length ps \<Longrightarrow> length (generate_smooth_curve ps ct) = (length ps - 1) * 6 + 1"
  by (simp add: smooth_curve_unfold length_blocks)

lemma smooth_curve_inner:
  assumes "2 \<le> length ps" and "i < length ps - 1" and "j < 6"
  shows "generate_smooth_curve ps ct ! (6 * i + j) = segment_points (sort_key time ps) i ! j"
proof -
  from assms have "6 * i + j < 6 * (length ps - 1)" by simp
  with assms show ?thesis
    by (simp add: smooth_curve_unfold nth_append length_blocks nth_blocks)
qed

lemma smooth_curve_raw:
  assumes "2 \<le> length ps" and "i < length ps"
  shows "generate_smooth_curve ps ct ! (6 * i) = sort_key time ps ! i"
proof (cases "i < length ps - 1")
  case True
  with smooth_curve_inner [OF assms(1) True, of 0 ct] show ?thesis
    by (simp add: segment_points_nth)
next
  case False
  with assms have "i = length ps - 1" by simp
  with assms show ?thesis
    by (simp add: smooth_curve_unfold nth_append length_blocks)
qed

lemma smooth_curve_point:
  assumes "2 \<le> length ps" and "i < length ps - 1" and "j \<le> 6"
  shows "generate_smooth_curve ps ct ! (6 * i + j) =
           smooth_point (sort_key time ps ! i) (sort_key time ps ! (i + 1)) j"
proof -
  consider "j = 0" | "0 < j" "j < 6" | "j = 6" using assms(3) by linarith
  then show ?thesis
  proof cases
    case 1
    with smooth_curve_raw [OF assms(1), of i ct] assms(2) show ?thesis
      by (simp add: smooth_point_0)
  next
    case 2
    with smooth_curve_inner [OF assms(1,2), of j ct] show ?thesis
      by (simp add: segment_points_nth)
  next
    case 3
    from assms(2) have "i + 1 < length ps" by simp
    from smooth_curve_raw [OF assms(1) this, of ct] 3 show ?thesis
      by (simp add: smooth_point_6 add.commute)
  qed
qed

text \<open>
  C8. With fewer than 2 predictions the curve synthesizer returns its input. For
  \<open>N \<ge> 2\<close> predictions it returns \<open>(N - 1) * 6 + 1\<close> points; the point at position
  \<open>6 * i\<close> is the \<open>i\<close>-th prediction of the input sorted by time; and within the
  interval \<open>i\<close> the point at position \<open>6 * i + j\<close>, for \<open>j\<close> from 0 to 6 and
  \<open>r = j / 6\<close>, has the time \<open>t1 + (t2 - t1) * r\<close> and the height
  \<open>h1 + (h2 - h1) * (3 r\<^sup>2 - 2 r\<^sup>3)\<close>: at \<open>r = 0\<close> it is the left raw point, at
  \<open>r = 1\<close> the right one, and the 5 points in between are the inserted ones.
\<close>

theorem generate_smooth_curve_points:
  "(length ps < 2 \<longrightarrow> generate_smooth_curve ps ct = ps)
   \<and> (2 \<le> length ps \<longrightarrow>
        length (generate_smooth_curve ps ct) = (length ps - 1) * 6 + 1
        \<and> (\<forall>i < length ps. generate_smooth_curve ps ct ! (6 * i) = sort_key time ps ! i)
        \<and> (\<forall>i < length ps - 1. \<forall>j \<le> 6.
              generate_smooth_curve ps ct ! (6 * i + j) =
                \<lparr>time = time (sort_key time ps ! i)
                          + (time (sort_key time ps ! (i + 1)) - time (sort_key time ps ! i)) * (real j / 6),
                 height = height (sort_key time ps ! i)
                          + (height (sort_key time ps ! (i + 1)) - height (sort_key time ps ! i))
                            * (3 * (real j / 6) ^ 2 - 2 * (real j / 6) ^ 3)\<rparr>))"
proof (intro conjI impI allI)
  assume "length ps < 2"
  then show "generate_smooth_curve ps ct = ps"
    by (simp add: generate_smooth_curve_def)
next
  assume "2 \<le> length ps"
  then show "length (generate_smooth_curve ps ct) = (length ps - 1) * 6 + 1"
    by (rule smooth_curve_length)
next
  fix i
  assume "2 \<le> length ps" and "i < length ps"
  then show "generate_smooth_curve ps ct ! (6 * i) = sort_key time ps ! i"
    by (rule smooth_curve_raw)
next
  fix i j :: nat
  assume "2 \<le> length ps" and "i < length ps - 1" and "j \<le> 6"
  then have "generate_smooth_curve ps ct ! (6 * i + j) =
           smooth_point (sort_key time ps ! i) (sort_key time ps ! (i + 1)) j"
    by (rule smooth_curve_point)
  then show "generate_smooth_curve ps ct ! (6 * i + j) =
                \<lparr>time = time (sort_key time ps ! i)
                          + (time (sort_key time ps ! (i + 1)) - time (sort_key time ps ! i)) * (real j / 6),
                 height = height (sort_key time ps ! i)
                          + (height (sort_key time ps ! (i + 1)) - height (sort_key time ps ! i))
                            * (3 * (real j / 6) ^ 2 - 2 * (real j / 6) ^ 3)\<rparr>"
    by (simp add: smooth_point_def Let_def)
qed


theorem generate_smooth_curve_points_witness:
  "generate_smooth_curve [\<lparr>time = 0, height = 1\<rparr>] 5 = [\<lparr>time = 0, height = 1\<rparr>]
   \<and> length (generate_smooth_curve
         [\<lparr>time = 12, height = 3\<rparr>, \<lparr>time = 0, height = 1\<rparr>, \<lparr>time = 6, height = 0\<rparr>] 5) = 13
   \<and> generate_smooth_curve
         [\<lparr>time = 12, height = 3\<rparr>, \<lparr>time = 0, height = 1\<rparr>, \<lparr>time = 6, height = 0\<rparr>] 5 ! 6
       = \<lparr>time = 6, height = 0\<rparr>
   \<and> generate_smooth_curve
         [\<lparr>time = 12, height = 3\<rparr>, \<lparr>time = 0, height = 1\<rparr>, \<lparr>time = 6, height = 0\<rparr>] 5 ! 9
       = \<lparr>time = 9, height = 3 / 2\<rparr>"
proof -
  let ?ps = "[\<lparr>time = 12, height = 3\<rparr>, \<lparr>time = 0, height = 1\<rparr>, \<lparr>time = 6, height = (0::real)\<rparr>]"
  have short: "length [\<lparr>time = 0, height = (1::real)\<rparr>] < 2" by simp
  have long: "2 \<le> length ?ps" by simp
  have srt: "sort_key time ?ps = [\<lparr>time = 0, height = 1\<rparr>, \<lparr>time = 6, height = 0\<rparr>, \<lparr>time = 12, height = 3\<rparr>]"
    by simp
  from generate_smooth_curve_points [of "[\<lparr>time = 0, height = 1\<rparr>]" 5] short
  have a: "generate_smooth_curve [\<lparr>time = 0, height = 1\<rparr>] 5 = [\<lparr>time = 0, height = 1\<rparr>]"
    by blast
  from generate_smooth_curve_points [of ?ps 5] long
  have b: "length (generate_smooth_curve ?ps 5) = (length ?ps - 1) * 6 + 1"
    and c: "\<forall>i < length ?ps. generate_smooth_curve ?ps 5 ! (6 * i) = sort_key time ?ps ! i"
    and d: "\<forall>i < length ?ps - 1. \<forall>j \<le> 6.
              generate_smooth_curve ?ps 5 ! (6 * i + j) =
                \<lparr>time = time (sort_key time ?ps ! i)
                          + (time (sort_key time ?ps ! (i + 1)) - time (sort_key time ?ps ! i)) * (real j / 6),
                 height = height (sort_key time ?ps ! i)
                          + (height (sort_key time ?ps ! (i + 1)) - height (sort_key time ?ps ! i))
                            * (3 * (real j / 6) ^ 2 - 2 * (real j / 6) ^ 3)\<rparr>"
    by blast+
  from b have b': "length (generate_smooth_curve ?ps 5) = 13" by simp
  from c [rule_format, of 1]
  have c': "generate_smooth_curve ?ps 5 ! 6 = \<lparr>time = 6, height = 0\<rparr>"
    by (simp add: srt)
  from d [rule_format, of 1 3]
  have d': "generate_smooth_curve ?ps 5 ! 9 = \<lparr>time = 9, height = 3 / 2\<rparr>"
    by (simp add: srt power2_eq_square power3_eq_cube)
  from a b' c' d' show ?thesis by blast
qed

section \<open>Instant interpolation: unsorted input\<close>

text \<open>
  C5. The claim is that the instant interpolator sorts its input, as
  \<open>_generate_smooth_curve\<close> does, so that its result is the result on the sorted
  list. \<open>_interpolate_current_height\<close> scans the list as given: on the two
  predictions (10, 3), (0, 1) and the instant 5 it returns \<open>None\<close>, while on the same
  list sorted by time it returns 2.
\<close>

theorem interpolator_unsorted_input:
  "interpolate_current_height [\<lparr>time = 10, height = 3\<rparr>, \<lparr>time = 0, height = 1\<rparr>] 5 = Inr None
   \<and> interpolate_current_height
        (sort_key time [\<lparr>time = 10, height = 3\<rparr>, \<lparr>time = 0, height = 1\<rparr>]) 5 = Inr (Some 2)"
  by (simp add: interpolate_current_height_def py_div_def)

section \<open>Extraction: the two shapes\<close>

lemma py_float_error:
  "py_float env v = Inl e \<Longrightarrow>
     e = ValueError \<or> e = TypeError \<or> (e = OverflowError \<and> (\<exists>n. v = PInt n \<and> \<not> in_float_range n))"
  by (cases v) (auto split: option.splits if_splits)

lemma date_field_text:
  "date_field v \<Longrightarrow> truthy v \<Longrightarrow> \<exists>s. v = PStr s \<and> s \<noteq> []"
  by (cases v) (auto simp: date_field_def)

lemma parse_entry_raw_error:
  assumes "raw_entry (PDict kvs)" and "parse_entry env (PDict kvs) = Inl e"
  shows "e = ValueError \<or> e = TypeError"
proof (cases "truthy (dict_get kvs ''fecha'') \<and> truthy (dict_get kvs ''hora'')")
  case False
  with assms(2) show ?thesis
    by (auto simp: parse_entry_def Let_def)
next
  case True
  with assms(1) obtain f h where
    f: "dict_get kvs ''fecha'' = PStr f" and h: "dict_get kvs ''hora'' = PStr h"
    using date_field_text [of "dict_get kvs ''fecha''"] date_field_text [of "dict_get kvs ''hora''"]
    by auto
  show ?thesis
  proof (cases "strptime env (f @ '' '' @ h)")
    case None
    with assms(2) True f h show ?thesis
      by (simp add: parse_entry_def py_format_def)
  next
    case (Some dt)
    let ?v = "case map_of kvs ''altura'' of None \<Rightarrow> PInt 0 | Some v \<Rightarrow> v"
    from assms(2) True f h Some have fl: "py_float env ?v = Inl e"
      by (simp add: parse_entry_def py_format_def split: sum.splits)
    have "\<not> (\<exists>n. ?v = PInt n \<and> \<not> in_float_range n)"
      using assms(1) by (auto simp: in_float_range_def split: option.splits pyval.splits)
    with py_float_error [OF fl] show ?thesis
      by blast
  qed
qed

lemma parse_entries_step:
  assumes "raw_entry entry"
  shows "parse_entries env (entry # rest) acc =
           parse_entries env rest (acc @ (case entry_result env entry of None \<Rightarrow> [] | Some p \<Rightarrow> [p]))"
proof -
  from assms obtain kvs where entry: "entry = PDict kvs"
    by (cases entry) simp_all
  show ?thesis
  proof (cases "parse_entry env entry")
    case (Inl e)
    with parse_entry_raw_error [of kvs env e] assms entry show ?thesis
      by (auto simp: entry_result_def)
  next
    case (Inr r)
    then show ?thesis
      by (cases r) (simp_all add: entry_result_def)
  qed
qed

lemma parse_entries_raw:
  "list_all raw_entry es \<Longrightarrow>
     parse_entries env es acc = Inr (acc @ List.map_filter (entry_result env) es)"
proof (induction es arbitrary: acc)
  case Nil
  then show ?case by (simp add: List.map_filter_simps)
next
  case (Cons entry es)
  then have entry: "raw_entry entry" and rest: "list_all raw_entry es"
    by simp_all
  from Cons.IH [OF rest] show ?case
    by (simp only: parse_entries_step [OF entry]) (simp add: List.map_filter_simps split: option.splits)
qed

lemma extract_raw_payload:
  "list_all raw_entry es \<Longrightarrow>
     extract_predictions env (raw_payload es) = Inr (List.map_filter (entry_result env) es)"
  by (simp add: extract_predictions_def extract_raw_def raw_payload_def parse_entries_raw)

lemma map_filter_append:
  "List.map_filter f (xs @ ys) = List.map_filter f xs @ List.map_filter f ys"
  by (simp add: List.map_filter_def)


text \<open>The body of the \<open>try\<close> on an entry whose date and time are strings.\<close>

lemma parse_entry_dated:
  assumes "dict_get kvs ''fecha'' = PStr f" and "dict_get kvs ''hora'' = PStr h"
  shows "parse_entry env (PDict kvs) =
           (if f \<noteq> [] \<and> h \<noteq> [] then
              (case strptime env (f @ '' '' @ h) of
                 None \<Rightarrow> Inl ValueError
               | Some dt \<Rightarrow>
                   (case py_float env (case map_of kvs ''altura'' of None \<Rightarrow> PInt 0 | Some v \<Rightarrow> v) of
                      Inl e \<Rightarrow> Inl e
                    | Inr x \<Rightarrow> Inr (Some \<lparr>time = dt, height = x\<rparr>)))
            else Inr None)"
  using assms by (simp add: parse_entry_def py_format_def)

lemma zero_in_float_range: "in_float_range 0"
  by (simp add: in_float_range_def)

text \<open>
  C10. In the raw shape, an entry with a date string and a time string that parse,
  and with no \<open>altura\<close> key at all, is not skipped: \<open>entry.get("altura", 0)\<close> gives
  0, and the loop appends the prediction with height 0 and goes on, whatever the
  entries around it. The same entry with a height string that is not a number is
  skipped: the loop goes on with nothing appended. In an extraction that returns,
  the first entry has its prediction at its place among the results of the entries
  before and after it, and the second has none.
\<close>

theorem absent_height_defaults_to_zero:
  assumes "map_of kvs ''fecha'' = Some (PStr f)" and "f \<noteq> []"
    and "map_of kvs ''hora'' = Some (PStr h)" and "h \<noteq> []"
    and "strptime env (f @ '' '' @ h) = Some dt"
  shows "(map_of kvs ''altura'' = None \<longrightarrow>
            parse_entries env (PDict kvs # rest) acc =
              parse_entries env rest (acc @ [\<lparr>time = dt, height = 0\<rparr>])
            \<and> (list_all raw_entry before \<and> list_all raw_entry after \<longrightarrow>
                 extract_predictions env (raw_payload (before @ PDict kvs # after)) =
                   Inr (List.map_filter (entry_result env) before
                        @ \<lparr>time = dt, height = 0\<rparr> # List.map_filter (entry_result env) after)))
       \<and> (map_of kvs ''altura'' = Some (PStr s) \<and> float_of_str env s = None \<longrightarrow>
            parse_entries env (PDict kvs # rest) acc = parse_entries env rest acc
            \<and> (list_all raw_entry before \<and> list_all raw_entry after \<longrightarrow>
                 extract_predictions env (raw_payload (before @ PDict kvs # after)) =
                   Inr (List.map_filter (entry_result env) before
                        @ List.map_filter (entry_result env) after)))"
proof -
  from assms(1,3) have dates: "dict_get kvs ''fecha'' = PStr f" "dict_get kvs ''hora'' = PStr h"
    by (simp_all add: dict_get_def)
  note body = parse_entry_dated [OF dates, of env]
  have ex: "extract_predictions env (raw_payload (before @ PDict kvs # after)) =
      Inr (List.map_filter (entry_result env) before
           @ List.map_filter (entry_result env) (PDict kvs # after))"
    if "raw_entry (PDict kvs)" and "list_all raw_entry before \<and> list_all raw_entry after"
  proof -
    from that have "list_all raw_entry (before @ PDict kvs # after)" by simp
    then show ?thesis
      by (simp only: extract_raw_payload map_filter_append)
  qed
  show ?thesis
  proof (intro conjI impI)
    assume absent: "map_of kvs ''altura'' = None"
    with body assms(2,4,5) have pe: "parse_entry env (PDict kvs) = Inr (Some \<lparr>time = dt, height = 0\<rparr>)"
      by (simp add: zero_in_float_range)
    then show "parse_entries env (PDict kvs # rest) acc =
                 parse_entries env rest (acc @ [\<lparr>time = dt, height = 0\<rparr>])"
      by simp
    assume ctx: "list_all raw_entry before \<and> list_all raw_entry after"
    from absent dates have "raw_entry (PDict kvs)"
      by (simp add: date_field_def)
    from ex [OF this ctx] pe
    show "extract_predictions env (raw_payload (before @ PDict kvs # after)) =
              Inr (List.map_filter (entry_result env) before
                   @ \<lparr>time = dt, height = 0\<rparr> # List.map_filter (entry_result env) after)"
      by (simp add: List.map_filter_simps entry_result_def)
  next
    assume nonnum: "map_of kvs ''altura'' = Some (PStr s) \<and> float_of_str env s = None"
    with body assms(2,4,5) have pe: "parse_entry env (PDict kvs) = Inl ValueError"
      by simp
    then show "parse_entries env (PDict kvs # rest) acc = parse_entries env rest acc"
      by simp
    assume ctx: "list_all raw_entry before \<and> list_all raw_entry after"
    from nonnum dates have "raw_entry (PDict kvs)"
      by (simp add: date_field_def)
    from ex [OF this ctx] pe
    show "extract_predictions env (raw_payload (before @ PDict kvs # after)) =
              Inr (List.map_filter (entry_result env) before
                   @ List.map_filter (entry_result env) after)"
      by (simp add: List.map_filter_simps entry_result_def)
  qed
qed

theorem absent_height_defaults_to_zero_witness:
  "extract_predictions example_env (raw_payload
      [PDict [(''fecha'', PStr ''2024-05-01''), (''hora'', PStr ''08:00:00''), (''altura'', PStr ''0.5'')],
       PDict [(''fecha'', PStr ''2024-05-01''), (''hora'', PStr ''14:00:00'')]])
     = Inr [\<lparr>time = 28800, height = 1 / 2\<rparr>, \<lparr>time = 50400, height = 0\<rparr>]
   \<and> extract_predictions example_env (raw_payload
      [PDict [(''fecha'', PStr ''2024-05-01''), (''hora'', PStr ''08:00:00''), (''altura'', PStr ''0.5'')],
       PDict [(''fecha'', PStr ''2024-05-01''), (''hora'', PStr ''14:00:00''), (''altura'', PStr ''high'')]])
     = Inr [\<lparr>time = 28800, height = 1 / 2\<rparr>]"
proof -
  let ?first = "PDict [(''fecha'', PStr ''2024-05-01''), (''hora'', PStr ''08:00:00''), (''altura'', PStr ''0.5'')]"
  have raw: "list_all raw_entry [?first]" "list_all raw_entry []"
    by (simp_all add: date_field_def dict_get_def)
  have first: "entry_result example_env ?first = Some \<lparr>time = 28800, height = 1 / 2\<rparr>"
    by (simp add: entry_result_def parse_entry_def dict_get_def py_format_def example_env_def)
  have dt: "strptime example_env (''2024-05-01'' @ '' '' @ ''14:00:00'') = Some 50400"
    by (simp add: example_env_def)
  have nonnum: "float_of_str example_env ''high'' = None"
    by (simp add: example_env_def)
  from absent_height_defaults_to_zero
    [of "[(''fecha'', PStr ''2024-05-01''), (''hora'', PStr ''14:00:00'')]"
        "''2024-05-01''" "''14:00:00''" example_env 50400 "[]" "[]" "[?first]" "[]" "''high''"]
    dt first raw
  have a: "extract_predictions example_env (raw_payload
      [?first, PDict [(''fecha'', PStr ''2024-05-01''), (''hora'', PStr ''14:00:00'')]])
     = Inr [\<lparr>time = 28800, height = 1 / 2\<rparr>, \<lparr>time = 50400, height = 0\<rparr>]"
    by (simp add: List.map_filter_simps)
  from absent_height_defaults_to_zero
    [of "[(''fecha'', PStr ''2024-05-01''), (''hora'', PStr ''14:00:00''), (''altura'', PStr ''high'')]"
        "''2024-05-01''" "''14:00:00''" example_env 50400 "[]" "[]" "[?first]" "[]" "''high''"]
    dt first nonnum raw
  have b: "extract_predictions example_env (raw_payload
      [?first, PDict [(''fecha'', PStr ''2024-05-01''), (''hora'', PStr ''14:00:00''), (''altura'', PStr ''high'')]])
     = Inr [\<lparr>time = 28800, height = 1 / 2\<rparr>]"
    by (simp add: List.map_filter_simps)
  from a b show ?thesis by simp
qed








section \<open>Rendering: the padded height range\<close>

lemma list_min_le_max: "hs \<noteq> [] \<Longrightarrow> list_min hs \<le> list_max hs"
  by (induction hs rule: list_min.induct) (auto simp: min_def max_def)

text \<open>
  C6 (as the code has it). For the domain extents the renderer lowers the minimum
  height and raises the maximum height by the same amount, one tenth of the raw
  range each, so that the padded range is 1.2 times the raw range; for a curve that
  is not empty the padding goes outward.
\<close>

theorem padded_heights_range:
  "snd (padded_heights hs) - fst (padded_heights hs) = (12 / 10) * (list_max hs - list_min hs)
   \<and> list_min hs - fst (padded_heights hs) = (1 / 10) * (list_max hs - list_min hs)
   \<and> snd (padded_heights hs) - list_max hs = (1 / 10) * (list_max hs - list_min hs)
   \<and> (hs \<noteq> [] \<longrightarrow> fst (padded_heights hs) \<le> list_min hs \<and> list_max hs \<le> snd (padded_heights hs))"
proof (intro conjI impI)
  show "snd (padded_heights hs) - fst (padded_heights hs) = (12 / 10) * (list_max hs - list_min hs)"
    by (simp add: padded_heights_def Let_def field_simps)
  show "list_min hs - fst (padded_heights hs) = (1 / 10) * (list_max hs - list_min hs)"
    by (simp add: padded_heights_def Let_def)
  show "snd (padded_heights hs) - list_max hs = (1 / 10) * (list_max hs - list_min hs)"
    by (simp add: padded_heights_def Let_def)
next
  assume "hs \<noteq> []"
  then have le: "list_min hs \<le> list_max hs" by (rule list_min_le_max)
  then show "fst (padded_heights hs) \<le> list_min hs"
    by (simp add: padded_heights_def Let_def)
  from le show "list_max hs \<le> snd (padded_heights hs)"
    by (simp add: padded_heights_def Let_def)
qed

theorem padded_heights_range_witness:
  "[0, 10] \<noteq> ([]::real list) \<and> padded_heights [0, 10] = (- 1, 11)
   \<and> fst (padded_heights [0, 10]) \<le> list_min [0, 10]
   \<and> list_max [0, 10] \<le> snd (padded_heights [0, 10])"
  using padded_heights_range [of "[0, 10]"]
  by (simp add: padded_heights_def)

text \<open>
  For the heights 0 and 10 the padded range is 12, not 1.1 times the raw range.
\<close>

theorem padded_heights_counterexample:
  "snd (padded_heights [0, 10]) - fst (padded_heights [0, 10]) = 12
   \<and> snd (padded_heights [0, 10]) - fst (padded_heights [0, 10])
       \<noteq> (11 / 10) * (list_max [0, 10] - list_min [0, 10])"
  by (simp add: padded_heights_def)

section \<open>Writing: what reaches the file system\<close>

lemma save_svg_as_png_success:
  assumes "can_write env (replace (filename cfg) ''.png'' ''.svg'')"
    and "can_write env (filename cfg)"
  shows "save_svg_as_png env cfg svg_content files =
           (True, files(replace (filename cfg) ''.png'' ''.svg'' \<mapsto> svg_content,
                        filename cfg \<mapsto> svg_content))"
  using assms by (simp add: save_svg_as_png_def Let_def)

text \<open>
  C4. The claim is that a successful write leaves three artifacts, the third being
  the wrapper document with the markup as inline base64 data. With the output path
  \<open>tide.png\<close>, the markup \<open><svg/>\<close> and an empty file system, \<open>_save_svg_as_png\<close>
  succeeds and leaves two files, \<open>tide.svg\<close> and \<open>tide.png\<close>, both holding the
  markup; the wrapper document, which differs from the markup, is in neither.
\<close>

theorem save_svg_as_png_writes_markup_twice:
  "save_svg_as_png example_env example_config ''<svg/>'' Map.empty
     = (True, [''tide.svg'' \<mapsto> ''<svg/>'', ''tide.png'' \<mapsto> ''<svg/>''])
   \<and> html_content (b64encode ''<svg/>'') \<noteq> ''<svg/>''"
  by (simp add: save_svg_as_png_def example_env_def example_config_def html_content_def)

section \<open>The public operation: failures of the geometry\<close>

lemma smooth_curve_nonempty: "ps \<noteq> [] \<Longrightarrow> generate_smooth_curve ps ct \<noteq> []"
proof (cases "length ps < 2")
  case True
  assume "ps \<noteq> []"
  with True show ?thesis by (simp add: generate_smooth_curve_def)
next
  case False
  from False have "length ps \<noteq> 0"
    by linarith
  then have "length (sort_key time ps) \<noteq> 0"
    by (simp only: length_sort not_False_eq_True)
  then have "sort_key time ps \<noteq> []"
    by (simp only: length_0_conv not_False_eq_True)
  with False show ?thesis by (simp add: generate_smooth_curve_def Let_def)
qed

lemma render_empty: "generate_svg_plot cfg [] extremes ct ch ps = Inr (generate_error_svg cfg)"
  by (simp add: generate_svg_plot_def)

lemma render_nonempty:
  assumes "curve \<noteq> []"
  shows "generate_svg_plot cfg curve extremes ct ch ps = Inl ZeroDivisionError
         \<or> (\<exists>parts. generate_svg_plot cfg curve extremes ct ch ps = Inr (PlotSvg parts))"
  using assms by (simp add: generate_svg_plot_def Let_def split: prod.splits)

lemma padded_zero_iff:
  "snd (padded_heights hs) - fst (padded_heights hs) = 0 \<longleftrightarrow> list_max hs = list_min hs"
proof -
  have eq: "snd (padded_heights hs) - fst (padded_heights hs) = (12 / 10) * (list_max hs - list_min hs)"
    by (simp add: padded_heights_def Let_def field_simps)
  show ?thesis unfolding eq by simp
qed

lemma render_raises_iff:
  assumes "curve \<noteq> []"
  shows "generate_svg_plot cfg curve extremes ct ch ps = Inl ZeroDivisionError
         \<longleftrightarrow> list_max (map time curve) = list_min (map time curve)
             \<or> list_max (map height curve) = list_min (map height curve)"
proof -
  obtain lo hi where p: "padded_heights (map height curve) = (lo, hi)"
    by fastforce
  with padded_zero_iff [of "map height curve"]
  have "hi - lo = 0 \<longleftrightarrow> list_max (map height curve) = list_min (map height curve)"
    by simp
  with assms p show ?thesis
    by (auto simp: generate_svg_plot_def Let_def)
qed

lemma save_true:
  "save_svg_as_png env cfg content files = (True, files') \<Longrightarrow> files' (filename cfg) = Some content"
  by (auto simp: save_svg_as_png_def Let_def split: if_splits)

text \<open>
  C3 (as the code has it). When extraction yields predictions and the geometry
  computation raises an exception, whatever the current height passed to it, the
  public operation does not propagate it: the handler of \<open>generate_tide_plot\<close>
  returns \<open>False\<close> and the file system is left as it was. The renderer returns the
  fixed error document for an empty curve; the public operation never renders an
  empty curve, and whenever it returns \<open>True\<close> the configured path holds the text
  of a plot document.
\<close>

theorem geometry_failure_reports_failure:
  "(\<not> tide_data_empty td \<and> extract_predictions env td = Inr ps \<and> ps \<noteq> []
      \<and> generate_svg_plot cfg (generate_smooth_curve ps ct) (find_extremes ps) ct ch ps = Inl e
      \<longrightarrow> generate_tide_plot env cfg td (Some ct) files = (False, files))
   \<and> generate_svg_plot cfg [] extremes ct ch ps = Inr (generate_error_svg cfg)
   \<and> (generate_tide_plot env cfg td (Some ct) files = (True, files')
        \<longrightarrow> (\<exists>parts. files' (filename cfg) = Some (svg_text env (PlotSvg parts))))"
proof (intro conjI impI)
  assume a: "\<not> tide_data_empty td \<and> extract_predictions env td = Inr ps \<and> ps \<noteq> []
      \<and> generate_svg_plot cfg (generate_smooth_curve ps ct) (find_extremes ps) ct ch ps = Inl e"
  let ?curve = "generate_smooth_curve ps ct"
  from a have ne: "?curve \<noteq> []" by (intro smooth_curve_nonempty) simp
  from a render_nonempty [OF ne, of cfg "find_extremes ps" ct ch ps]
  have "generate_svg_plot cfg ?curve (find_extremes ps) ct ch ps = Inl ZeroDivisionError"
    by auto
  then have flat: "list_max (map time ?curve) = list_min (map time ?curve)
                   \<or> list_max (map height ?curve) = list_min (map height ?curve)"
    by (simp only: render_raises_iff [OF ne])
  obtain ch0 where ch0: "interpolate_current_height ps ct = Inr ch0"
    using interpolate_returns by blast
  from flat have "generate_svg_plot cfg ?curve (find_extremes ps) ct ch0 ps = Inl ZeroDivisionError"
    by (simp only: render_raises_iff [OF ne])
  with a ch0 show "generate_tide_plot env cfg td (Some ct) files = (False, files)"
    by (simp add: generate_tide_plot_def generate_body_def Let_def)
next
  show "generate_svg_plot cfg [] extremes ct ch ps = Inr (generate_error_svg cfg)"
    by (rule render_empty)
next
  assume ok: "generate_tide_plot env cfg td (Some ct) files = (True, files')"
  then obtain preds where ex: "extract_predictions env td = Inr preds" and ne: "preds \<noteq> []"
    by (auto simp: generate_tide_plot_def generate_body_def Let_def split: if_splits sum.splits)
  obtain ch0 where ch0: "interpolate_current_height preds ct = Inr ch0"
    using interpolate_returns by blast
  let ?r = "generate_svg_plot cfg (generate_smooth_curve preds ct) (find_extremes preds) ct ch0 preds"
  from ne have "generate_smooth_curve preds ct \<noteq> []" by (rule smooth_curve_nonempty)
  from render_nonempty [OF this, of cfg "find_extremes preds" ct ch0 preds]
  consider "?r = Inl ZeroDivisionError" | parts where "?r = Inr (PlotSvg parts)"
    by blast
  then show "\<exists>parts. files' (filename cfg) = Some (svg_text env (PlotSvg parts))"
  proof cases
    case 1
    with ok ex ne ch0 show ?thesis
      by (simp add: generate_tide_plot_def generate_body_def Let_def split: if_splits)
  next
    case 2
    with ok ex ne ch0
    have "save_svg_as_png env cfg (svg_text env (PlotSvg parts)) files = (True, files')"
      by (simp add: generate_tide_plot_def generate_body_def Let_def split: if_splits)
    then have "files' (filename cfg) = Some (svg_text env (PlotSvg parts))"
      by (rule save_true)
    then show ?thesis by blast
  qed
qed

text \<open>
  A single prediction gives a curve of one point, whose time range is zero: the
  renderer raises \<open>ZeroDivisionError\<close>, and the public operation returns \<open>False\<close>
  with nothing written, neither the error document nor a success.
\<close>

theorem geometry_failure_counterexample:
  "interpolate_current_height [\<lparr>time = 0, height = 1\<rparr>] 0 = Inr None
   \<and> generate_svg_plot example_config (generate_smooth_curve [\<lparr>time = 0, height = 1\<rparr>] 0)
       (find_extremes [\<lparr>time = 0, height = 1\<rparr>]) 0 None [\<lparr>time = 0, height = 1\<rparr>]
     = Inl ZeroDivisionError
   \<and> generate_tide_plot example_env example_config
       \<lparr>tide_points = Some [\<lparr>time = 0, height = 1\<rparr>], daily = None\<rparr> (Some 0) Map.empty
     = (False, Map.empty)"
  by (simp add: generate_tide_plot_def generate_body_def tide_data_empty_def
      extract_predictions_def generate_smooth_curve_def find_extremes_def
      interpolate_current_height_def generate_svg_plot_def padded_heights_def)

theorem geometry_failure_reports_failure_witness:
  "interpolate_current_height [\<lparr>time = 0, height = 1\<rparr>, \<lparr>time = 10, height = 1\<rparr>] 5 = Inr (Some 1)
   \<and> generate_svg_plot example_config
       (generate_smooth_curve [\<lparr>time = 0, height = 1\<rparr>, \<lparr>time = 10, height = 1\<rparr>] 5)
       (find_extremes [\<lparr>time = 0, height = 1\<rparr>, \<lparr>time = 10, height = 1\<rparr>]) 5 (Some 1)
       [\<lparr>time = 0, height = 1\<rparr>, \<lparr>time = 10, height = 1\<rparr>]
     = Inl ZeroDivisionError
   \<and> generate_tide_plot example_env example_config
       \<lparr>tide_points = Some [\<lparr>time = 0, height = 1\<rparr>, \<lparr>time = 10, height = 1\<rparr>], daily = None\<rparr>
       (Some 5) Map.empty
     = (False, Map.empty)"
proof -
  let ?ps = "[\<lparr>time = 0, height = 1\<rparr>, \<lparr>time = 10, height = (1::real)\<rparr>]"
  let ?td = "\<lparr>tide_points = Some ?ps, daily = None\<rparr>"
  have present: "\<not> tide_data_empty ?td"
    by (simp add: tide_data_empty_def)
  have extracted: "extract_predictions example_env ?td = Inr ?ps"
    by (simp add: extract_predictions_def)
  have current: "interpolate_current_height ?ps 5 = Inr (Some 1)"
    by (simp add: interpolate_current_height_def py_div_def)
  have raised: "generate_svg_plot example_config (generate_smooth_curve ?ps 5) (find_extremes ?ps) 5
                  (Some 1) ?ps = Inl ZeroDivisionError"
    by (simp add: generate_smooth_curve_def smooth_segment_def smooth_point_def
        generate_svg_plot_def padded_heights_def upt_conv_Cons)
  from geometry_failure_reports_failure
    [where td = ?td and env = example_env and ps = ?ps and cfg = example_config and ct = 5
       and ch = "Some 1" and e = ZeroDivisionError and files = Map.empty]
    present extracted raised
  have "generate_tide_plot example_env example_config ?td (Some 5) Map.empty = (False, Map.empty)"
    by simp
  with current raised show ?thesis by simp
qed

end
